theory Spec2Isabelle
  imports Main "HOL-Library.Word"
begin

unbundle bit_operations_syntax

section \<open>Data of the program\<close>

text \<open>
  The markdown previewer \<^verbatim>\<open>mdp\<close> (one Go file, \<^verbatim>\<open>main.go\<close>) renders a markdown
  file to HTML and either writes it to a file (one-shot mode) or serves it on a fixed
  port and tells the browser to reload when the file is written (watch mode).

  Byte slices and Go strings are both \<^typ>\<open>string\<close> here (a list of 8-bit characters).
  A Go \<^verbatim>\<open>error\<close> is a value carrying its message.
\<close>

type_synonym bytes = string

datatype error = Error string

fun message :: "error \<Rightarrow> string" where
  "message (Error m) = m"

text \<open>\<^verbatim>\<open>type content struct\<close>, \<^verbatim>\<open>type markdownHandler struct\<close> and
  \<^verbatim>\<open>type websocketEvent struct\<close> (main.go, 91-105). The fields \<^verbatim>\<open>body\<close>,
  \<^verbatim>\<open>filename\<close> and \<^verbatim>\<open>tFname\<close> of the handler carry the prefix \<open>md_\<close>, since
  the functions below have parameters of the same names.\<close>

record content =
  FileName :: string
  Title :: string
  Body :: bytes

record markdownHandler =
  md_body :: bytes
  md_filename :: string
  md_tFname :: string

record websocketEvent =
  Type :: string

text \<open>The constant \<^verbatim>\<open>port\<close> (main.go, 110) and the template text (main.go, 26-88), line by
  line; every line of the raw string literal ends with a newline.\<close>

definition port :: string where
  "port = '':5052''"

definition defaultTemplate :: string where
  \<open>defaultTemplate = concat (map (\<lambda>l. l @ [CHR 0x0A])
    [
     ''<!DOCTYPE html>'',
     ''<html>'',
     ''  <head>'',
     ''    <meta http-equiv="content-type" content="text/html; charset=utf-8">'',
     ''    <title>{{ .Title }}</title>'',
     ''    <script>'',
     ''    // Preserve scroll position on window.reload();'',
     ''    document.addEventListener("DOMContentLoaded", function(event) { '',
     ''      var scrollpos = sessionStorage.getItem('scrollpos');'',
     ''      if (scrollpos) window.scrollTo(0, scrollpos);'',
     ''    });'',
     '''',
     ''    window.onbeforeunload = function(e) {'',
     ''      sessionStorage.setItem('scrollpos', window.scrollY);'',
     ''    };'',
     '''',
     ''    // Create the websocket for communicating with the API.'',
     ''    function connect() {'',
     ''      var socket = new WebSocket("ws://localhost:5052/websocket");'',
     '''',
     ''      socket.onclose = function(event) {'',
     ''        console.log("Websocket connection closed or unable to connect; " +'',
     ''        "starting reconnect timeout");'',
     '''',
     ''        // Allow the last socket to be cleaned up.'',
     ''        socket = null;'',
     '''',
     ''        // Set an interval to continue trying to reconnect'',
     ''        // periodically until we succeed.'',
     ''        setTimeout(function() {'',
     ''          connect();'',
     ''        }, 5000)'',
     ''      }'',
     '''',
     ''      socket.onmessage = function(event) {'',
     ''        var data = JSON.parse(event.data);'',
     ''        switch(data.type) {'',
     ''        case "build_complete":'',
     ''          // 1000 = "Normal closure" and the second parameter is a'',
     ''          // human-readable reason.'',
     ''          socket.close(1000, "Reloading page after receiving build_complete");'',
     '''',
     ''          console.log("Reloading page after receiving build_complete");'',
     ''          location.reload();'',
     '''',
     ''          break;'',
     '''',
     ''        default:'',
     ''          console.log("Don't know how to handle type");'',
     ''        }'',
     ''      }'',
     ''    }'',
     '''',
     ''    connect();'',
     ''    </script>'',
     ''  </head>'',
     ''  <body>'',
     ''{{ .FileName }}'',
     ''  <hr>'',
     ''{{ .Body }}'',
     ''  </body>'',
     ''</html>''
    ])\<close>

section \<open>The operating system and the libraries\<close>

text \<open>
  The file system as the program sees it through \<^verbatim>\<open>os.ReadFile\<close> and
  \<^verbatim>\<open>os.WriteFile\<close>: \<open>files\<close> gives the bytes of every path that can be read,
  \<open>readonly\<close> the paths where a write fails.
\<close>

record filesystem =
  files :: "string \<rightharpoonup> bytes"
  readonly :: "string set"

definition ReadFile :: "filesystem \<Rightarrow> string \<Rightarrow> error + bytes" where
  "ReadFile fs name =
     (case files fs name of
        None \<Rightarrow> Inl (Error (''open '' @ name @ '': no such file or directory''))
      | Some b \<Rightarrow> Inr b)"

definition WriteFile :: "filesystem \<Rightarrow> string \<Rightarrow> bytes \<Rightarrow> error + filesystem" where
  "WriteFile fs name data =
     (if name \<in> readonly fs
      then Inl (Error (''open '' @ name @ '': permission denied''))
      else Inr (fs\<lparr>files := (files fs)(name \<mapsto> data)\<rparr>))"

text \<open>
  The rendering libraries are dependencies of the repository (go.mod), not part of it:
  goldmark's \<^verbatim>\<open>Convert\<close>, bluemonday's \<^verbatim>\<open>SanitizeBytes\<close> and the parser and
  executor of \<^verbatim>\<open>html/template\<close> are parameters of the model, each a function of its
  arguments. \<open>'t\<close> is the type of parsed templates.
\<close>

record 't libs =
  Convert :: "bytes \<Rightarrow> error + bytes"
  SanitizeBytes :: "bytes \<Rightarrow> bytes"
  Parse :: "string \<Rightarrow> error + 't"
  Execute :: "'t \<Rightarrow> content \<Rightarrow> error + bytes"

text \<open>\<^verbatim>\<open>template.ParseFiles(tFname)\<close> reads the named file and parses its text.\<close>

definition ParseFiles :: "'t libs \<Rightarrow> filesystem \<Rightarrow> string \<Rightarrow> error + 't" where
  "ParseFiles L fs name =
     (case ReadFile fs name of Inl e \<Rightarrow> Inl e | Inr text \<Rightarrow> Parse L text)"

section \<open>Rendering and the content endpoint\<close>

text \<open>\<^verbatim>\<open>parseContent\<close> (main.go, 254-302). Every \<^verbatim>\<open>return nil, err\<close> is an \<open>Inl\<close>.\<close>

definition parseContent ::
  "'t libs \<Rightarrow> filesystem \<Rightarrow> bytes \<Rightarrow> string \<Rightarrow> string \<Rightarrow> error + bytes" where
  "parseContent L fs input inFilename tFname =
     (case Convert L input of
        Inl err \<Rightarrow> Inl err
      | Inr output \<Rightarrow>
          let body = SanitizeBytes L output in
          (case Parse L defaultTemplate of
             Inl err \<Rightarrow> Inl err
           | Inr t0 \<Rightarrow>
               (case (if tFname \<noteq> [] then ParseFiles L fs tFname else Inr t0) of
                  Inl err \<Rightarrow> Inl err
                | Inr t \<Rightarrow>
                    Execute L t
                      \<lparr>FileName = inFilename, Title = ''Markdown Preview Tool'', Body = body\<rparr>)))"

text \<open>\<^verbatim>\<open>saveHTML\<close> (main.go, 304-306).\<close>

definition saveHTML :: "filesystem \<Rightarrow> string \<Rightarrow> bytes \<Rightarrow> error + filesystem" where
  "saveHTML fs outFname data = WriteFile fs outFname data"

text \<open>
  \<^verbatim>\<open>markdownHandler.ServeHTTP\<close> (main.go, 205-216). The result is the body the handler
  writes with \<^verbatim>\<open>w.Write\<close>; \<open>None\<close> is a return without any write.
\<close>

definition ServeHTTP :: "'t libs \<Rightarrow> filesystem \<Rightarrow> markdownHandler \<Rightarrow> bytes option" where
  "ServeHTTP L fs md =
     (case ReadFile fs (md_filename md) of
        Inl err \<Rightarrow> None
      | Inr newInput \<Rightarrow>
          (case parseContent L fs newInput (md_filename md) (md_tFname md) of
             Inl err \<Rightarrow> None
           | Inr newHTMLData \<Rightarrow> Some newHTMLData))"

section \<open>Runs of the renderer\<close>

text \<open>
  To speak of two runs of \<^verbatim>\<open>parseContent\<close>, a call of a library gets the set of the
  values it may return, over all runs and states of the process; a library that always
  returns the same value for the same arguments has one value in each set. The file
  system stays the function it is: it is the state a run finds. \<open>parseContent_runs\<close>
  and \<open>ServeHTTP_runs\<close> are the two functions of the source again, over such
  libraries: the values they may return.
\<close>

record 't runlibs =
  Convert_runs :: "bytes \<Rightarrow> (error + bytes) set"
  SanitizeBytes_runs :: "bytes \<Rightarrow> bytes set"
  Parse_runs :: "string \<Rightarrow> (error + 't) set"
  Execute_runs :: "'t \<Rightarrow> content \<Rightarrow> (error + bytes) set"

definition ParseFiles_runs :: "'t runlibs \<Rightarrow> filesystem \<Rightarrow> string \<Rightarrow> (error + 't) set" where
  "ParseFiles_runs R fs name =
     (case ReadFile fs name of Inl e \<Rightarrow> {Inl e} | Inr text \<Rightarrow> Parse_runs R text)"

definition parseContent_runs ::
  "'t runlibs \<Rightarrow> filesystem \<Rightarrow> bytes \<Rightarrow> string \<Rightarrow> string \<Rightarrow> (error + bytes) set" where
  "parseContent_runs R fs input inFilename tFname =
     (\<Union>c \<in> Convert_runs R input.
        case c of
          Inl err \<Rightarrow> {Inl err}
        | Inr output \<Rightarrow>
            (\<Union>body \<in> SanitizeBytes_runs R output.
             \<Union>p \<in> Parse_runs R defaultTemplate.
               case p of
                 Inl err \<Rightarrow> {Inl err}
               | Inr t0 \<Rightarrow>
                   (\<Union>q \<in> (if tFname \<noteq> [] then ParseFiles_runs R fs tFname else {Inr t0}).
                      case q of
                        Inl err \<Rightarrow> {Inl err}
                      | Inr t \<Rightarrow>
                          Execute_runs R t
                            \<lparr>FileName = inFilename, Title = ''Markdown Preview Tool'',
                             Body = body\<rparr>)))"




definition always :: "'t libs \<Rightarrow> 't runlibs" where
  "always L =
     \<lparr>Convert_runs = (\<lambda>x. {Convert L x}),
      SanitizeBytes_runs = (\<lambda>x. {SanitizeBytes L x}),
      Parse_runs = (\<lambda>x. {Parse L x}),
      Execute_runs = (\<lambda>t c. {Execute L t c})\<rparr>"

section \<open>Starting the process\<close>

text \<open>
  What the process asks of the operating system besides files: the name of the platform
  (\<^verbatim>\<open>runtime.GOOS\<close>), the search for an executable (\<^verbatim>\<open>exec.LookPath\<close>), running a
  command to its end (\<^verbatim>\<open>exec.Command(...).Run()\<close>), and the two calls that set up the
  watch (\<^verbatim>\<open>fsnotify.NewWatcher\<close>, \<^verbatim>\<open>watcher.Add\<close>). \<open>None\<close> is a nil error.
\<close>

record osenv =
  GOOS :: string
  LookPath :: "string \<Rightarrow> error + string"
  Command_Run :: "string \<Rightarrow> string list \<Rightarrow> error option"
  NewWatcher :: "error option"
  Add :: "string \<Rightarrow> error option"

text \<open>\<^verbatim>\<open>preview\<close> (main.go, 308-338).\<close>

definition preview :: "osenv \<Rightarrow> string \<Rightarrow> error option" where
  "preview E fname =
     (case (if GOOS E = ''linux'' then Some (''xdg-open'', [])
            else if GOOS E = ''windows'' then Some (''cmd.exe'', [''/C'', ''start''])
            else if GOOS E = ''darwin'' then Some (''open'', [])
            else None) of
        None \<Rightarrow> Some (Error ''OS not supported'')
      | Some (cName, cParams0) \<Rightarrow>
          let cParams = cParams0 @ [fname] in
          (case LookPath E cName of
             Inl err \<Rightarrow> Some err
           | Inr cPath \<Rightarrow> Command_Run E cPath cParams))"

text \<open>
  What a goroutine does that the user or the rest of the process can observe:
  a line on standard output, a line on the error stream (directly or through the
  \<^verbatim>\<open>log\<close> package), the usage text, the start of a goroutine, the end of the process.
\<close>

datatype effect =
    Println string
  | Fprintln_Stderr string
  | Log string
  | Usage
  | Go_fileWatcher string
  | Go_serveContent string string
  | Go_pump
  | Exit nat

text \<open>
  \<^verbatim>\<open>run\<close> (main.go, 132-167) up to its loop. It returns an error, returns nil, or
  reaches \<^verbatim>\<open>for range rebuild\<close>, which never ends since the channel is never closed;
  the loop itself is part of the system of goroutines below. The value of
  \<^verbatim>\<open>preview(host)\<close> is computed and dropped, as in the source.
\<close>

datatype run_result = Returned "error option" | Loop

definition run ::
  "'t libs \<Rightarrow> osenv \<Rightarrow> filesystem \<Rightarrow> string \<Rightarrow> string \<Rightarrow> string
     \<Rightarrow> filesystem \<times> effect list \<times> run_result" where
  "run L E fs inFilename outFilename tFname =
     (case ReadFile fs inFilename of
        Inl err \<Rightarrow> (fs, [], Returned (Some err))
      | Inr input \<Rightarrow>
          (case parseContent L fs input inFilename tFname of
             Inl err \<Rightarrow> (fs, [], Returned (Some err))
           | Inr htmlData \<Rightarrow>
               if outFilename \<noteq> [] then
                 (case saveHTML fs outFilename htmlData of
                    Inl err \<Rightarrow> (fs, [], Returned (Some err))
                  | Inr fs' \<Rightarrow> (fs', [], Returned None))
               else
                 let host = ''http://localhost:5052/content'';
                     dropped = preview E host
                 in (fs,
                     [Go_fileWatcher inFilename,
                      Go_serveContent inFilename tFname,
                      Println (''Server listening on http://localhost'' @ port @ ''/content'')],
                     Loop)))"

text \<open>
  \<^verbatim>\<open>main\<close> (main.go, 113-130). A flag that is not on the command line has its default.
  The default of \<^verbatim>\<open>-outfile\<close> is cut from \<^verbatim>\<open>*inFilename\<close> before \<^verbatim>\<open>flag.Parse\<close> has
  run, that is from the default of \<^verbatim>\<open>-infile\<close>, the empty string.
  \<open>Cut_before s sep\<close> is the first result of \<^verbatim>\<open>strings.Cut\<close> for a separator of one
  character.
\<close>

record args =
  arg_infile :: "string option"
  arg_outfile :: "string option"
  arg_t :: "string option"

definition Cut_before :: "string \<Rightarrow> char \<Rightarrow> string" where
  "Cut_before s sep = takeWhile (\<lambda>c. c \<noteq> sep) s"

definition main ::
  "'t libs \<Rightarrow> osenv \<Rightarrow> filesystem \<Rightarrow> args \<Rightarrow> filesystem \<times> effect list" where
  "main L E fs a =
     (let tentativeOutFilename = Cut_before [] (CHR ''.'');
          inFilename = (case arg_infile a of None \<Rightarrow> [] | Some v \<Rightarrow> v);
          outFilename = (case arg_outfile a of None \<Rightarrow> tentativeOutFilename | Some v \<Rightarrow> v);
          tFname = (case arg_t a of None \<Rightarrow> [] | Some v \<Rightarrow> v)
      in if inFilename = [] then (fs, [Usage, Exit 1])
         else (case run L E fs inFilename outFilename tFname of
                 (fs', effs, Returned (Some err)) \<Rightarrow>
                   (fs', effs @ [Fprintln_Stderr (message err), Exit 1])
               | (fs', effs, Returned None) \<Rightarrow> (fs', effs @ [Exit 0])
               | (fs', effs, Loop) \<Rightarrow> (fs', effs)))"

text \<open>
  \<^verbatim>\<open>fileWatcher\<close> (main.go, 169-203) without the body of its goroutine:
  \<^verbatim>\<open>log.Fatal\<close> prints on the error stream and ends the process with status 1;
  when both calls succeed the function blocks for ever on an empty channel.
\<close>

definition fileWatcher :: "osenv \<Rightarrow> string \<Rightarrow> effect list" where
  "fileWatcher E file =
     (case NewWatcher E of
        Some err \<Rightarrow> [Log (message err), Exit 1]
      | None \<Rightarrow>
          Go_pump #
          (case Add E file of
             Some err \<Rightarrow> [Log (message err), Exit 1]
           | None \<Rightarrow> []))"

section \<open>The goroutine of the file watcher\<close>

text \<open>
  fsnotify is a dependency (go.mod, v1.6.0). An event carries a file name and a bit set
  of operations: \<^verbatim>\<open>Create = 1 << iota\<close>, then \<^verbatim>\<open>Write\<close>, \<^verbatim>\<open>Remove\<close>, \<^verbatim>\<open>Rename\<close>,
  \<^verbatim>\<open>Chmod\<close>; \<^verbatim>\<open>Event.Has(op)\<close> is \<^verbatim>\<open>e.Op&op == op\<close>.
\<close>

record fsevent =
  Name :: string
  Op :: "32 word"

definition Create :: "32 word" where "Create = 1"
definition Write :: "32 word" where "Write = 2"
definition Remove :: "32 word" where "Remove = 4"
definition Rename :: "32 word" where "Rename = 8"
definition Chmod :: "32 word" where "Chmod = 16"

definition Has :: "fsevent \<Rightarrow> 32 word \<Rightarrow> bool" where
  "Has e op = (Op e AND op = op)"

text \<open>
  What the \<^verbatim>\<open>select\<close> of the goroutine (main.go, 176-193) can receive: an event, an
  error, or the news that one of the two channels is closed (\<^verbatim>\<open>ok\<close> false).
\<close>

datatype witem = Event fsevent | Watch_error error | Events_closed | Errors_closed

text \<open>One turn of the loop: what the goroutine does with the item it received.\<close>

datatype reaction = Rebuild | Ignored | Logged string | Stop

fun react :: "witem \<Rightarrow> reaction" where
  "react (Event event) = (if Has event Write then Rebuild else Ignored)"
| "react (Watch_error err) = Logged (''error: '' @ message err)"
| "react Events_closed = Stop"
| "react Errors_closed = Stop"

text \<open>
  The loop on a sequence of items, when every send on \<^verbatim>\<open>rebuild\<close> finds its receiver:
  the sends and the log lines, in order. At the end of the items the goroutine waits
  in its \<^verbatim>\<open>select\<close>.
\<close>

datatype pump_out = Send_rebuild bool | Log_Println string

fun pump :: "witem list \<Rightarrow> pump_out list" where
  "pump [] = []"
| "pump (x # rest) =
     (case react x of
        Rebuild \<Rightarrow> Send_rebuild True # pump rest
      | Ignored \<Rightarrow> pump rest
      | Logged m \<Rightarrow> Log_Println m # pump rest
      | Stop \<Rightarrow> [])"

section \<open>The goroutines together\<close>

text \<open>
  In watch mode four kinds of goroutine run: \<^verbatim>\<open>main\<close> (in \<^verbatim>\<open>run\<close>), the one started by
  \<^verbatim>\<open>go serveContent\<close>, the loop of the file watcher, and one \<^verbatim>\<open>ws\<close> handler for every
  request to \<^verbatim>\<open>/websocket\<close>. They meet on two channels made without a capacity
  (main.go, 108-109): a send and a receive on such a channel happen together, and each
  waits for the other.

  \<^verbatim>\<open>serveContent\<close> (main.go, 237-250) is at its \<^verbatim>\<open>http.ListenAndServe\<close>, serving for
  ever behind a bound port, at its send on \<^verbatim>\<open>serverUp\<close>, or done.
\<close>

datatype serve_pc = SListen | SServe | SSend | SDone

text \<open>\<^verbatim>\<open>run\<close> after the goroutines are started (main.go, 157-164): in \<^verbatim>\<open>preview\<close>, at the
  receive of \<^verbatim>\<open>for range rebuild\<close>, or inside the call of \<^verbatim>\<open>serveContent\<close>.\<close>

datatype main_pc = MPreview | MRecv | MServeContent serve_pc

text \<open>The loop of the watcher: in its \<^verbatim>\<open>select\<close>, at \<^verbatim>\<open>rebuild <- true\<close>, or returned.\<close>

datatype pump_pc = PSelect | PSend | PReturned

text \<open>
  \<^verbatim>\<open>ws\<close> (main.go, 218-235) after a successful upgrade: at \<^verbatim>\<open>up := <-serverUp\<close>, holding
  the value received, before the deferred \<^verbatim>\<open>c.Close()\<close>, or returned. With the program
  counter goes the list of calls made on the connection so far. Of gorilla's
  \<^verbatim>\<open>Conn\<close>, \<^verbatim>\<open>WriteJSON\<close> sends one text message, \<^verbatim>\<open>Close\<close> closes the network
  connection without sending a close frame, and a close frame with a status and a
  reason is sent by \<^verbatim>\<open>WriteMessage(CloseMessage, FormatCloseMessage(code, text))\<close>.
\<close>

datatype ws_pc = HWait | HGot bool | HDefer | HDone

datatype conn_call = WriteJSON websocketEvent | WriteMessage_Close nat string | Close

type_synonym handler = "ws_pc \<times> conn_call list"

text \<open>Who holds the fixed port: one of the two calls of \<^verbatim>\<open>serveContent\<close>, or another
  process.\<close>

datatype holder = ByFirst | ByMain | ByOther

text \<open>
  \<^verbatim>\<open>http.ListenAndServe(port, mux)\<close>: with the port free it binds and serves, and does
  not return; with the port taken it returns at once (address in use), and the next
  statement of \<^verbatim>\<open>serveContent\<close> is the send on \<^verbatim>\<open>serverUp\<close>.
\<close>

fun ListenAndServe :: "holder \<Rightarrow> holder option \<Rightarrow> serve_pc \<times> holder option" where
  "ListenAndServe who None = (SServe, Some who)"
| "ListenAndServe who (Some h) = (SSend, Some h)"

record sys =
  mainpc :: main_pc
  firstpc :: serve_pc
  pumppc :: pump_pc
  queue :: "witem list"
  bound :: "holder option"
  handlers :: "handler list"
  logs :: "string list"
  received :: nat

text \<open>
  The state when \<^verbatim>\<open>run\<close> has started the goroutines and \<^verbatim>\<open>fileWatcher\<close> has set up
  its watch: \<open>evs\<close> are the items the watcher will deliver, in order, and \<open>taken\<close>
  says whether another process holds the port.
\<close>

definition init :: "witem list \<Rightarrow> bool \<Rightarrow> sys" where
  "init evs taken =
     \<lparr>mainpc = MPreview, firstpc = SListen, pumppc = PSelect, queue = evs,
      bound = (if taken then Some ByOther else None), handlers = [], logs = [],
      received = 0\<rparr>"

text \<open>
  One step of one goroutine, or of two that meet on a channel; a browser that asks for
  \<^verbatim>\<open>/websocket\<close> is a step too. \<open>exec l s\<close> is \<open>None\<close> when the step cannot
  happen in \<open>s\<close>: the goroutine is elsewhere, or it waits.

  \<^item> \<open>Preview_returns\<close>: \<^verbatim>\<open>preview(host)\<close> returns, whatever its value (main.go, 157).
  \<^item> \<open>Pump\<close>: the watcher's loop receives the next item (main.go, 178-191).
  \<^item> \<open>Rebuild_sync\<close>: \<^verbatim>\<open>rebuild <- true\<close> meets \<^verbatim>\<open>for range rebuild\<close>, and \<^verbatim>\<open>run\<close>
    calls \<^verbatim>\<open>serveContent\<close> (main.go, 184, 160-161).
  \<^item> \<open>Listen_main\<close>, \<open>Listen_first\<close>: \<^verbatim>\<open>http.ListenAndServe\<close> in the call made by the
    loop and in the goroutine of \<^verbatim>\<open>go serveContent\<close> (main.go, 248).
  \<^item> \<open>Connect upg\<close>: a request to \<^verbatim>\<open>/websocket\<close> reaches a listener of this process;
    \<open>upg\<close> is the error of \<^verbatim>\<open>upgrader.Upgrade\<close> (main.go, 223-227).
  \<^item> \<open>Up_main i\<close>, \<open>Up_first i\<close>: \<^verbatim>\<open>serverUp <- true\<close> of that call of \<^verbatim>\<open>serveContent\<close>
    meets \<^verbatim>\<open><-serverUp\<close> of handler \<open>i\<close> (main.go, 249, 231).
  \<^item> \<open>Write_json i\<close>: \<^verbatim>\<open>if up { c.WriteJSON(...) }\<close> (main.go, 232-234).
  \<^item> \<open>Close_conn i\<close>: the deferred \<^verbatim>\<open>c.Close()\<close> (main.go, 228).
\<close>

datatype label =
    Preview_returns
  | Pump
  | Rebuild_sync
  | Listen_main
  | Listen_first
  | Connect "error option"
  | Up_main nat
  | Up_first nat
  | Write_json nat
  | Close_conn nat

definition build_complete :: websocketEvent where
  "build_complete = \<lparr>Type = ''build_complete''\<rparr>"

fun exec :: "label \<Rightarrow> sys \<Rightarrow> sys option" where
  "exec Preview_returns s =
     (if mainpc s = MPreview then Some (s\<lparr>mainpc := MRecv\<rparr>) else None)"
| "exec Pump s =
     (if pumppc s = PSelect then
        (case queue s of
           [] \<Rightarrow> None
         | x # rest \<Rightarrow>
             (case react x of
                Rebuild \<Rightarrow> Some (s\<lparr>pumppc := PSend, queue := rest\<rparr>)
              | Ignored \<Rightarrow> Some (s\<lparr>queue := rest\<rparr>)
              | Logged m \<Rightarrow> Some (s\<lparr>queue := rest, logs := logs s @ [m]\<rparr>)
              | Stop \<Rightarrow> Some (s\<lparr>pumppc := PReturned, queue := rest\<rparr>)))
      else None)"
| "exec Rebuild_sync s =
     (if pumppc s = PSend \<and> mainpc s = MRecv
      then Some (s\<lparr>pumppc := PSelect, mainpc := MServeContent SListen,
                   received := received s + 1\<rparr>)
      else None)"
| "exec Listen_main s =
     (if mainpc s = MServeContent SListen
      then (case ListenAndServe ByMain (bound s) of
              (pc, b) \<Rightarrow> Some (s\<lparr>mainpc := MServeContent pc, bound := b\<rparr>))
      else None)"
| "exec Listen_first s =
     (if firstpc s = SListen
      then (case ListenAndServe ByFirst (bound s) of
              (pc, b) \<Rightarrow> Some (s\<lparr>firstpc := pc, bound := b\<rparr>))
      else None)"
| "exec (Connect upg) s =
     (if bound s = Some ByFirst \<or> bound s = Some ByMain then
        (case upg of
           Some err \<Rightarrow> Some (s\<lparr>logs := logs s @ [''upgrade:'' @ message err]\<rparr>)
         | None \<Rightarrow> Some (s\<lparr>handlers := handlers s @ [(HWait, [])]\<rparr>))
      else None)"
| "exec (Up_main i) s =
     (if mainpc s = MServeContent SSend \<and> i < length (handlers s)
         \<and> fst (handlers s ! i) = HWait
      then Some (s\<lparr>mainpc := MRecv,
                   handlers := (handlers s)[i := (HGot True, snd (handlers s ! i))]\<rparr>)
      else None)"
| "exec (Up_first i) s =
     (if firstpc s = SSend \<and> i < length (handlers s) \<and> fst (handlers s ! i) = HWait
      then Some (s\<lparr>firstpc := SDone,
                   handlers := (handlers s)[i := (HGot True, snd (handlers s ! i))]\<rparr>)
      else None)"
| "exec (Write_json i) s =
     (if i < length (handlers s) then
        (case handlers s ! i of
           (HGot up, calls) \<Rightarrow>
             Some (s\<lparr>handlers := (handlers s)
                     [i := (HDefer, if up then calls @ [WriteJSON build_complete] else calls)]\<rparr>)
         | _ \<Rightarrow> None)
      else None)"
| "exec (Close_conn i) s =
     (if i < length (handlers s) then
        (case handlers s ! i of
           (HDefer, calls) \<Rightarrow>
             Some (s\<lparr>handlers := (handlers s)[i := (HDone, calls @ [Close])]\<rparr>)
         | _ \<Rightarrow> None)
      else None)"

text \<open>A schedule is a list of steps; it runs until a step cannot happen.\<close>

fun execs :: "label list \<Rightarrow> sys \<Rightarrow> sys option" where
  "execs [] s = Some s"
| "execs (l # ls) s = (case exec l s of None \<Rightarrow> None | Some s' \<Rightarrow> execs ls s')"

text \<open>
  Counting: the write events among items, the handlers that have received from
  \<^verbatim>\<open>serverUp\<close>, and the messages written on all connections.
\<close>

fun is_write :: "witem \<Rightarrow> bool" where
  "is_write (Event event) = Has event Write"
| "is_write (Watch_error err) = False"
| "is_write Events_closed = False"
| "is_write Errors_closed = False"

definition writes :: "witem list \<Rightarrow> nat" where
  "writes evs = length (filter is_write evs)"

fun is_send :: "pump_out \<Rightarrow> bool" where
  "is_send (Send_rebuild v) = True"
| "is_send (Log_Println m) = False"

definition tokens :: "handler list \<Rightarrow> nat" where
  "tokens hs = sum_list (map (\<lambda>h. if fst h = HWait then 0 else 1) hs)"

fun is_message :: "conn_call \<Rightarrow> bool" where
  "is_message (WriteJSON ev) = True"
| "is_message (WriteMessage_Close code reason) = False"
| "is_message Close = False"

definition messages :: "conn_call list \<Rightarrow> nat" where
  "messages calls = length (filter is_message calls)"

definition sent :: "handler list \<Rightarrow> nat" where
  "sent hs = sum_list (map (\<lambda>h. messages (snd h)) hs)"

text \<open>The status and reason of the close frame a list of calls sends, if it sends one.\<close>

fun close_frame :: "conn_call list \<Rightarrow> (nat \<times> string) option" where
  "close_frame [] = None"
| "close_frame (WriteMessage_Close code reason # cs) = Some (code, reason)"
| "close_frame (c # cs) = close_frame cs"

text \<open>The text \<^verbatim>\<open>WriteJSON\<close> sends for an event: the encoding of the struct with its
  tag \<^verbatim>\<open>json:"type"\<close>, and the newline of \<^verbatim>\<open>Encoder.Encode\<close>. (No character of the
  one value the program sends needs escaping.)\<close>

definition json :: "websocketEvent \<Rightarrow> string" where
  \<open>json ev = ''{"type":"'' @ Type ev @ ''"}'' @ [CHR 0x0A]\<close>

text \<open>
  What a handler can have done on its connection, at each point of \<^verbatim>\<open>ws\<close>.
\<close>

fun handler_ok :: "handler \<Rightarrow> bool" where
  "handler_ok (HWait, calls) = (calls = [])"
| "handler_ok (HGot up, calls) = (up \<and> calls = [])"
| "handler_ok (HDefer, calls) = (calls = [WriteJSON build_complete])"
| "handler_ok (HDone, calls) = (calls = [WriteJSON build_complete, Close])"

section \<open>Concrete instances\<close>

text \<open>
  A small stand-in for the rendering libraries, an operating system and a file system,
  on which the theorems below are instantiated. The converter rejects a NUL byte, the
  sanitizer drops \<open><\<close>, a template is its text (the text \<open>{{\<close> does not parse), and
  executing a template prints the file name and the body.
\<close>

definition stub :: "string libs" where
  "stub =
     \<lparr>Convert = (\<lambda>b. if CHR 0x00 \<in> set b then Inl (Error ''invalid input'') else Inr b),
      SanitizeBytes = filter (\<lambda>c. c \<noteq> CHR ''<''),
      Parse = (\<lambda>text. if text = ''{{'' then Inl (Error ''unclosed action'') else Inr text),
      Execute = (\<lambda>t c. Inr (FileName c @ '': '' @ Body c))\<rparr>"

definition linux :: osenv where
  "linux =
     \<lparr>GOOS = ''linux'',
      LookPath = (\<lambda>n. Inr (''/usr/bin/'' @ n)),
      Command_Run = (\<lambda>p ps. None),
      NewWatcher = None,
      Add = (\<lambda>f. None)\<rparr>"

definition plan9 :: osenv where
  "plan9 = linux\<lparr>GOOS := ''plan9''\<rparr>"

definition disk :: filesystem where
  "disk = \<lparr>files = [''a.md'' \<mapsto> ''# hi''], readonly = {''ro.html''}\<rparr>"

definition write_a :: witem where
  "write_a = Event \<lparr>Name = ''a.md'', Op = Write\<rparr>"

definition chmod_a :: witem where
  "chmod_a = Event \<lparr>Name = ''a.md'', Op = Chmod\<rparr>"

definition bad_disk :: filesystem where
  "bad_disk = \<lparr>files = [''a.md'' \<mapsto> [CHR 0x00]], readonly = {}\<rparr>"

text \<open>
  Libraries whose template executor does not always return the same bytes, and a second
  file system: the same \<^verbatim>\<open>a.md\<close> as \<open>disk\<close>, and other files beside it.
\<close>

definition flaky :: "string runlibs" where
  "flaky = (always stub)\<lparr>Execute_runs := (\<lambda>t c. {Inr ''one'', Inr ''two''})\<rparr>"

definition disk2 :: filesystem where
  "disk2 =
     \<lparr>files = [''a.md'' \<mapsto> ''# hi'', ''t.html'' \<mapsto> ''{{'', ''b.md'' \<mapsto> ''other''],
      readonly = {}\<rparr>"

section \<open>Invariants of the goroutines\<close>

text \<open>
  \<open>counted n s\<close>: of \<open>n\<close> write events, each is still to be delivered, waits in the
  watcher's send, or has been received by \<^verbatim>\<open>run\<close>. \<open>ports_ok\<close>: who can hold the port
  at which point. \<open>tokens_ok\<close>: every value received from \<^verbatim>\<open>serverUp\<close> comes from a
  call of \<^verbatim>\<open>serveContent\<close> that has returned from its listen. \<open>handlers_ok\<close>: every
  handler has made the calls of its program point.
\<close>

fun in_cycle :: "main_pc \<Rightarrow> nat" where
  "in_cycle MPreview = 0"
| "in_cycle MRecv = 0"
| "in_cycle (MServeContent pc) = 1"

definition counted :: "nat \<Rightarrow> sys \<Rightarrow> bool" where
  "counted n s =
     (received s + (if pumppc s = PSend then 1 else 0) + writes (queue s) = n)"

definition ports_ok :: "sys \<Rightarrow> bool" where
  "ports_ok s =
     ((firstpc s = SSend \<or> firstpc s = SDone \<longrightarrow> bound s = Some ByMain \<or> bound s = Some ByOther)
      \<and> (bound s = Some ByOther \<longrightarrow> handlers s = [])
      \<and> (bound s = Some ByMain \<longrightarrow> mainpc s = MServeContent SServe)
      \<and> (bound s = Some ByFirst \<longrightarrow> firstpc s = SServe))"

definition tokens_ok :: "sys \<Rightarrow> bool" where
  "tokens_ok s =
     (tokens (handlers s) + in_cycle (mainpc s)
        = received s + (if firstpc s = SDone then 1 else 0))"

definition handlers_ok :: "sys \<Rightarrow> bool" where
  "handlers_ok s = list_all handler_ok (handlers s)"

definition invariant :: "nat \<Rightarrow> sys \<Rightarrow> bool" where
  "invariant n s = (counted n s \<and> ports_ok s \<and> tokens_ok s \<and> handlers_ok s)"

text \<open>
  \<open>blocked s\<close>: \<^verbatim>\<open>run\<close> is at the send on \<^verbatim>\<open>serverUp\<close> and no handler is at its
  receive. \<open>stuck\<close> is such a state, in an execution with two writes and no browser.
\<close>

definition blocked :: "sys \<Rightarrow> bool" where
  "blocked s = (mainpc s = MServeContent SSend \<and> list_all (\<lambda>h. fst h \<noteq> HWait) (handlers s))"

definition stuck :: sys where
  "stuck =
     \<lparr>mainpc = MServeContent SSend, firstpc = SServe, pumppc = PSelect, queue = [write_a],
      bound = Some ByFirst, handlers = [], logs = [], received = 1\<rparr>"

text \<open>
  Two schedules from the start of watch mode, with a browser connected: one write, and
  two writes of which the second reaches the watcher while \<^verbatim>\<open>run\<close> is still inside
  \<^verbatim>\<open>serveContent\<close> for the first.
\<close>





definition one_save :: "label list" where
  "one_save =
     [Listen_first, Preview_returns, Connect None, Pump, Rebuild_sync, Listen_main,
      Up_main 0, Write_json 0, Close_conn 0]"

definition two_saves :: "label list" where
  "two_saves =
     [Listen_first, Preview_returns, Connect None, Pump, Rebuild_sync, Pump, Listen_main,
      Up_main 0, Write_json 0, Close_conn 0, Connect None, Rebuild_sync, Listen_main,
      Up_main 1, Write_json 1, Close_conn 1]"

definition reloaded_twice :: sys where
  "reloaded_twice =
     \<lparr>mainpc = MRecv, firstpc = SServe, pumppc = PSelect, queue = [], bound = Some ByFirst,
      handlers = [(HDone, [WriteJSON build_complete, Close]),
                  (HDone, [WriteJSON build_complete, Close])],
      logs = [], received = 2\<rparr>"

section \<open>Facts about the instances and the library model\<close>

lemma defaultTemplate_not_braces: "defaultTemplate \<noteq> ''{{''"
  by (simp add: defaultTemplate_def)

lemma parseContent_stub:
  "CHR 0x00 \<notin> set input \<Longrightarrow>
   parseContent stub fs input name [] = Inr (name @ '': '' @ filter (\<lambda>c. c \<noteq> CHR ''<'') input)"
  by (simp add: parseContent_def stub_def defaultTemplate_not_braces)

lemma ReadFile_disk: "ReadFile disk ''a.md'' = Inr ''# hi''"
  by (simp add: ReadFile_def disk_def)

text \<open>An event has the write flag exactly when bit 1 of its operations is set.\<close>

lemma Has_Write_bit: "Has ev Write = bit (Op ev) 1"
proof -
  have "(w AND 2 = 2) = bit w 1" for w :: "32 word"
  proof
    assume "w AND 2 = 2"
    then have "bit (w AND 2) 1 = bit (2 :: 32 word) 1" by simp
    then show "bit w 1" by (simp add: bit_and_iff)
  next
    assume "bit w 1"
    then show "w AND 2 = 2"
      by (intro bit_eqI) (auto simp add: bit_and_iff bit_2_iff)
  qed
  then show ?thesis by (simp add: Has_def Write_def)
qed

section \<open>The renderer and the content endpoint\<close>







text \<open>
  Two runs need not agree when a library does not, and with a template name the result
  depends on the files: the property below is not one that every function of this
  model has.
\<close>

lemma flaky_two_results:
  "parseContent_runs flaky disk ''# hi'' ''a.md'' [] = {Inr ''one'', Inr ''two''}"
  by (simp add: parseContent_runs_def flaky_def always_def stub_def defaultTemplate_not_braces)

lemma template_name_reads_files:
  "parseContent stub disk ''# hi'' ''a.md'' ''t.html''
     = Inl (Error ''open t.html: no such file or directory'')
   \<and> parseContent stub disk2 ''# hi'' ''a.md'' ''t.html'' = Inl (Error ''unclosed action'')"
  by (simp add: parseContent_def stub_def defaultTemplate_not_braces ParseFiles_def
      ReadFile_def disk_def disk2_def)





text \<open>
  C5. A request to the content endpoint whose read of the watched file fails, or whose
  render fails, returns without writing a body (the handler returns; nothing else of
  the process is touched); and once a write has put bytes in the file that render,
  the next request is answered with the rendered page.
\<close>

theorem ServeHTTP_failure_and_recovery:
  "(ReadFile fs (md_filename md) = Inl e \<longrightarrow> ServeHTTP L fs md = None)
   \<and> (ReadFile fs (md_filename md) = Inr b
        \<and> parseContent L fs b (md_filename md) (md_tFname md) = Inl e
        \<longrightarrow> ServeHTTP L fs md = None)
   \<and> (WriteFile fs (md_filename md) b' = Inr fs'
        \<and> parseContent L fs' b' (md_filename md) (md_tFname md) = Inr page
        \<longrightarrow> ServeHTTP L fs' md = Some page)"
proof (intro conjI impI)
  assume "ReadFile fs (md_filename md) = Inl e"
  then show "ServeHTTP L fs md = None" by (simp add: ServeHTTP_def)
next
  assume "ReadFile fs (md_filename md) = Inr b
    \<and> parseContent L fs b (md_filename md) (md_tFname md) = Inl e"
  then show "ServeHTTP L fs md = None" by (simp add: ServeHTTP_def)
next
  assume a: "WriteFile fs (md_filename md) b' = Inr fs'
    \<and> parseContent L fs' b' (md_filename md) (md_tFname md) = Inr page"
  then have "ReadFile fs' (md_filename md) = Inr b'"
    by (auto simp add: WriteFile_def ReadFile_def split: if_splits)
  with a show "ServeHTTP L fs' md = Some page" by (simp add: ServeHTTP_def)
qed

theorem ServeHTTP_failure_and_recovery_witness:
  "ServeHTTP stub bad_disk \<lparr>md_body = [], md_filename = ''gone.md'', md_tFname = []\<rparr> = None
   \<and> ServeHTTP stub bad_disk \<lparr>md_body = [], md_filename = ''a.md'', md_tFname = []\<rparr> = None
   \<and> WriteFile bad_disk ''a.md'' ''# hi'' = Inr (bad_disk\<lparr>files := (files bad_disk)(''a.md'' \<mapsto> ''# hi'')\<rparr>)
   \<and> ServeHTTP stub (bad_disk\<lparr>files := (files bad_disk)(''a.md'' \<mapsto> ''# hi'')\<rparr>)
         \<lparr>md_body = [], md_filename = ''a.md'', md_tFname = []\<rparr> = Some ''a.md: # hi''"
proof -
  let ?md = "\<lparr>md_body = [], md_filename = ''a.md'', md_tFname = []\<rparr>"
  let ?gone = "\<lparr>md_body = [], md_filename = ''gone.md'', md_tFname = []\<rparr>"
  let ?fs' = "bad_disk\<lparr>files := (files bad_disk)(''a.md'' \<mapsto> ''# hi'')\<rparr>"
  have r1: "ReadFile bad_disk (md_filename ?gone)
      = Inl (Error ''open gone.md: no such file or directory'')"
    by (simp add: ReadFile_def bad_disk_def)
  have r2: "ReadFile bad_disk (md_filename ?md) = Inr [CHR 0x00]
      \<and> parseContent stub bad_disk [CHR 0x00] (md_filename ?md) (md_tFname ?md)
          = Inl (Error ''invalid input'')"
    by (simp add: ReadFile_def bad_disk_def parseContent_def stub_def)
  have r3: "WriteFile bad_disk (md_filename ?md) ''# hi'' = Inr ?fs'
      \<and> parseContent stub ?fs' ''# hi'' (md_filename ?md) (md_tFname ?md) = Inr ''a.md: # hi''"
    by (simp add: WriteFile_def bad_disk_def parseContent_stub)
  from r1 ServeHTTP_failure_and_recovery [of bad_disk ?gone _ stub]
  have "ServeHTTP stub bad_disk ?gone = None" by blast
  moreover from r2 ServeHTTP_failure_and_recovery [of bad_disk ?md _ stub "[CHR 0x00]"]
  have "ServeHTTP stub bad_disk ?md = None" by blast
  moreover from r3 ServeHTTP_failure_and_recovery [of bad_disk ?md _ stub _ "''# hi''" ?fs' "''a.md: # hi''"]
  have "ServeHTTP stub ?fs' ?md = Some ''a.md: # hi''" by blast
  ultimately show ?thesis using r3 by simp
qed

section \<open>One-shot mode and start-up\<close>

text \<open>
  C2 (amended). In one-shot mode (a non-empty output path, a source file that can be
  read and renders), when the write of the output path succeeds the process exits
  with status 0 and the bytes at the output path are the bytes the content endpoint
  serves for the same file, file name and template option: both are the result of
  \<open>parseContent\<close>. When the write fails the process prints the error on the error
  stream and exits with status 1.
\<close>

theorem oneshot_writes_served_bytes:
  assumes "inFilename \<noteq> []" and "outFilename \<noteq> []"
    and "ReadFile fs inFilename = Inr input"
    and "parseContent L fs input inFilename tFname = Inr page"
  shows "(WriteFile fs outFilename page = Inr fs' \<longrightarrow>
            main L E fs \<lparr>arg_infile = Some inFilename, arg_outfile = Some outFilename,
                          arg_t = Some tFname\<rparr> = (fs', [Exit 0])
            \<and> files fs' outFilename = Some page
            \<and> ServeHTTP L fs \<lparr>md_body = [], md_filename = inFilename, md_tFname = tFname\<rparr>
                = Some page)
         \<and> (WriteFile fs outFilename page = Inl e \<longrightarrow>
            main L E fs \<lparr>arg_infile = Some inFilename, arg_outfile = Some outFilename,
                          arg_t = Some tFname\<rparr> = (fs, [Fprintln_Stderr (message e), Exit 1]))"
proof (intro conjI impI)
  assume w: "WriteFile fs outFilename page = Inr fs'"
  with assms show "main L E fs \<lparr>arg_infile = Some inFilename, arg_outfile = Some outFilename,
                          arg_t = Some tFname\<rparr> = (fs', [Exit 0])"
    by (simp add: main_def run_def saveHTML_def)
  from w show "files fs' outFilename = Some page"
    by (auto simp add: WriteFile_def split: if_splits)
  from assms show "ServeHTTP L fs \<lparr>md_body = [], md_filename = inFilename, md_tFname = tFname\<rparr>
                = Some page"
    by (simp add: ServeHTTP_def)
next
  assume "WriteFile fs outFilename page = Inl e"
  with assms show "main L E fs \<lparr>arg_infile = Some inFilename, arg_outfile = Some outFilename,
                          arg_t = Some tFname\<rparr> = (fs, [Fprintln_Stderr (message e), Exit 1])"
    by (simp add: main_def run_def saveHTML_def)
qed

theorem oneshot_writes_served_bytes_witness:
  "main stub linux disk \<lparr>arg_infile = Some ''a.md'', arg_outfile = Some ''a.html'', arg_t = Some []\<rparr>
     = (disk\<lparr>files := (files disk)(''a.html'' \<mapsto> ''a.md: # hi'')\<rparr>, [Exit 0])
   \<and> ServeHTTP stub disk \<lparr>md_body = [], md_filename = ''a.md'', md_tFname = []\<rparr>
     = Some ''a.md: # hi''"
proof -
  have w: "WriteFile disk ''a.html'' ''a.md: # hi''
      = Inr (disk\<lparr>files := (files disk)(''a.html'' \<mapsto> ''a.md: # hi'')\<rparr>)"
    by (simp add: WriteFile_def disk_def)
  have p: "parseContent stub disk ''# hi'' ''a.md'' [] = Inr ''a.md: # hi''"
    by (simp add: parseContent_stub)
  from oneshot_writes_served_bytes [of "''a.md''" "''a.html''" disk "''# hi''" stub "[]"
      "''a.md: # hi''" "disk\<lparr>files := (files disk)(''a.html'' \<mapsto> ''a.md: # hi'')\<rparr>" linux,
      OF _ _ ReadFile_disk p] w
  show ?thesis by simp
qed

text \<open>
  The claim as stated promises status 0 for every non-empty output path: here the
  source is valid, the output path cannot be written, and the status is 1.
\<close>

theorem oneshot_unwritable_output_exits_1:
  "ReadFile disk ''a.md'' = Inr ''# hi''
   \<and> parseContent stub disk ''# hi'' ''a.md'' [] = Inr ''a.md: # hi''
   \<and> main stub linux disk \<lparr>arg_infile = Some ''a.md'', arg_outfile = Some ''ro.html'', arg_t = None\<rparr>
       = (disk, [Fprintln_Stderr ''open ro.html: permission denied'', Exit 1])"
proof -
  have "WriteFile disk ''ro.html'' ''a.md: # hi'' = Inl (Error ''open ro.html: permission denied'')"
    by (simp add: WriteFile_def disk_def)
  then show ?thesis
    by (simp add: main_def run_def saveHTML_def ReadFile_disk parseContent_stub Cut_before_def)
qed

text \<open>
  C6. When the input file cannot be read at start-up, or its first render fails, the
  process prints the error on the error stream and exits with status 1, and no
  goroutine (file watcher, server) has been started; when the file system watcher
  cannot be made, or the watched file cannot be added to it, \<^verbatim>\<open>log.Fatal\<close> prints the
  error and ends the process with status 1.
\<close>

theorem startup_failures_abort:
  "(inFilename \<noteq> [] \<and> ReadFile fs inFilename = Inl e \<longrightarrow>
      main L E fs \<lparr>arg_infile = Some inFilename, arg_outfile = Some outFilename,
                    arg_t = Some tFname\<rparr> = (fs, [Fprintln_Stderr (message e), Exit 1]))
   \<and> (inFilename \<noteq> [] \<and> ReadFile fs inFilename = Inr input
        \<and> parseContent L fs input inFilename tFname = Inl e \<longrightarrow>
      main L E fs \<lparr>arg_infile = Some inFilename, arg_outfile = Some outFilename,
                    arg_t = Some tFname\<rparr> = (fs, [Fprintln_Stderr (message e), Exit 1]))
   \<and> (NewWatcher E = Some e \<longrightarrow> fileWatcher E watched = [Log (message e), Exit 1])
   \<and> (NewWatcher E = None \<and> Add E watched = Some e \<longrightarrow>
      fileWatcher E watched = [Go_pump, Log (message e), Exit 1])"
  by (simp add: main_def run_def fileWatcher_def)

theorem startup_failures_abort_witness:
  "main stub linux bad_disk \<lparr>arg_infile = Some ''gone.md'', arg_outfile = Some [], arg_t = Some []\<rparr>
     = (bad_disk, [Fprintln_Stderr ''open gone.md: no such file or directory'', Exit 1])
   \<and> main stub linux bad_disk \<lparr>arg_infile = Some ''a.md'', arg_outfile = Some [], arg_t = Some []\<rparr>
     = (bad_disk, [Fprintln_Stderr ''invalid input'', Exit 1])
   \<and> fileWatcher (linux\<lparr>NewWatcher := Some (Error ''too many open files'')\<rparr>) ''a.md''
     = [Log ''too many open files'', Exit 1]
   \<and> fileWatcher (linux\<lparr>Add := (\<lambda>f. Some (Error ''no such file or directory''))\<rparr>) ''a.md''
     = [Go_pump, Log ''no such file or directory'', Exit 1]"
proof -
  have r1: "ReadFile bad_disk ''gone.md'' = Inl (Error ''open gone.md: no such file or directory'')"
    by (simp add: ReadFile_def bad_disk_def)
  have r2: "ReadFile bad_disk ''a.md'' = Inr [CHR 0x00]
      \<and> parseContent stub bad_disk [CHR 0x00] ''a.md'' [] = Inl (Error ''invalid input'')"
    by (simp add: ReadFile_def bad_disk_def parseContent_def stub_def)
  have r3: "NewWatcher (linux\<lparr>NewWatcher := Some (Error ''too many open files'')\<rparr>)
      = Some (Error ''too many open files'')"
    by simp
  have r4: "NewWatcher (linux\<lparr>Add := (\<lambda>f. Some (Error ''no such file or directory''))\<rparr>) = None
      \<and> Add (linux\<lparr>Add := (\<lambda>f. Some (Error ''no such file or directory''))\<rparr>) ''a.md''
          = Some (Error ''no such file or directory'')"
    by (simp add: linux_def)
  from r1 startup_failures_abort [where inFilename = "''gone.md''" and fs = bad_disk and L = stub
      and E = linux and outFilename = "[]" and tFname = "[]" and input = "[]"
      and e = "Error ''open gone.md: no such file or directory''" and watched = "[]"]
  have "main stub linux bad_disk \<lparr>arg_infile = Some ''gone.md'', arg_outfile = Some [], arg_t = Some []\<rparr>
     = (bad_disk, [Fprintln_Stderr ''open gone.md: no such file or directory'', Exit 1])"
    by simp
  moreover from r2 startup_failures_abort [where inFilename = "''a.md''" and fs = bad_disk and L = stub
      and E = linux and outFilename = "[]" and tFname = "[]" and input = "[CHR 0x00]"
      and e = "Error ''invalid input''" and watched = "[]"]
  have "main stub linux bad_disk \<lparr>arg_infile = Some ''a.md'', arg_outfile = Some [], arg_t = Some []\<rparr>
     = (bad_disk, [Fprintln_Stderr ''invalid input'', Exit 1])"
    by simp
  moreover from r3 startup_failures_abort [where e = "Error ''too many open files''"
      and E = "linux\<lparr>NewWatcher := Some (Error ''too many open files'')\<rparr>" and watched = "''a.md''" and inFilename = "[]" and fs = bad_disk and L = stub
      and outFilename = "[]" and tFname = "[]" and input = "[]"]
  have "fileWatcher (linux\<lparr>NewWatcher := Some (Error ''too many open files'')\<rparr>) ''a.md''
     = [Log ''too many open files'', Exit 1]"
    by simp
  moreover from r4 startup_failures_abort [where e = "Error ''no such file or directory''"
      and E = "linux\<lparr>Add := (\<lambda>f. Some (Error ''no such file or directory''))\<rparr>"
      and watched = "''a.md''" and inFilename = "[]" and fs = bad_disk and L = stub
      and outFilename = "[]" and tFname = "[]" and input = "[]"]
  have "fileWatcher (linux\<lparr>Add := (\<lambda>f. Some (Error ''no such file or directory''))\<rparr>) ''a.md''
     = [Go_pump, Log ''no such file or directory'', Exit 1]"
    by simp
  ultimately show ?thesis by simp
qed

section \<open>The loop of the file watcher\<close>

lemma sends_pump:
  "Events_closed \<notin> set items \<Longrightarrow> Errors_closed \<notin> set items \<Longrightarrow>
   length (filter is_send (pump items)) = writes items"
proof (induction items)
  case Nil
  then show ?case by (simp add: writes_def)
next
  case (Cons x items)
  then show ?case by (cases x) (simp_all add: writes_def)
qed

lemma Has_write_a: "Has \<lparr>Name = ''a.md'', Op = Write\<rparr> Write"
  by (simp add: Has_def)

lemma Has_chmod_a: "\<not> Has \<lparr>Name = ''a.md'', Op = Chmod\<rparr> Write"
  by (simp add: Has_def Chmod_def Write_def)

text \<open>
  C7. For every event the watcher's loop receives, a send on \<^verbatim>\<open>rebuild\<close> follows if and
  only if the event has the write flag, and any other event is ignored; an error
  received from the watcher is logged and the loop goes on with the next item (the
  goroutine is again in its \<^verbatim>\<open>select\<close>, nothing ends). On items that close neither
  channel, the sends are as many as the events with the write flag.
\<close>

theorem pump_rebuild_iff_write:
  "pump (Event ev # rest) = (if Has ev Write then [Send_rebuild True] else []) @ pump rest
   \<and> pump (Watch_error err # rest) = Log_Println (''error: '' @ message err) # pump rest
   \<and> (Events_closed \<notin> set items \<and> Errors_closed \<notin> set items \<longrightarrow>
        length (filter is_send (pump items)) = length (filter is_write items))
   \<and> (pumppc s = PSelect \<and> queue s = Event ev # rest \<longrightarrow>
        exec Pump s = Some (s\<lparr>pumppc := (if Has ev Write then PSend else PSelect), queue := rest\<rparr>))
   \<and> (pumppc s = PSelect \<and> queue s = Watch_error err # rest \<longrightarrow>
        exec Pump s = Some (s\<lparr>queue := rest, logs := logs s @ [''error: '' @ message err]\<rparr>))"
proof (intro conjI impI)
  show "pump (Event ev # rest) = (if Has ev Write then [Send_rebuild True] else []) @ pump rest"
    by simp
  show "pump (Watch_error err # rest) = Log_Println (''error: '' @ message err) # pump rest"
    by simp
  show "length (filter is_send (pump items)) = length (filter is_write items)"
    if "Events_closed \<notin> set items \<and> Errors_closed \<notin> set items"
    using that sends_pump [of items] by (simp add: writes_def)
  show "exec Pump s = Some (s\<lparr>pumppc := (if Has ev Write then PSend else PSelect), queue := rest\<rparr>)"
    if "pumppc s = PSelect \<and> queue s = Event ev # rest"
    using that by simp
  show "exec Pump s = Some (s\<lparr>queue := rest, logs := logs s @ [''error: '' @ message err]\<rparr>)"
    if "pumppc s = PSelect \<and> queue s = Watch_error err # rest"
    using that by simp
qed

theorem pump_rebuild_iff_write_witness:
  "pump [write_a, chmod_a, Watch_error (Error ''queue overflow''), write_a]
     = [Send_rebuild True, Log_Println ''error: queue overflow'', Send_rebuild True]
   \<and> length (filter is_write [write_a, chmod_a, Watch_error (Error ''queue overflow''), write_a]) = 2
   \<and> exec Pump (init [chmod_a, write_a] False) = Some (init [write_a] False)
   \<and> exec Pump (init [Watch_error (Error ''queue overflow''), write_a] False)
       = Some ((init [write_a] False)\<lparr>logs := [''error: queue overflow'']\<rparr>)"
proof -
  let ?items = "[write_a, chmod_a, Watch_error (Error ''queue overflow''), write_a]"
  have closed: "Events_closed \<notin> set ?items \<and> Errors_closed \<notin> set ?items"
    by (simp add: write_a_def chmod_a_def)
  have q1: "pumppc (init [chmod_a, write_a] False) = PSelect
      \<and> queue (init [chmod_a, write_a] False) = Event \<lparr>Name = ''a.md'', Op = Chmod\<rparr> # [write_a]"
    by (simp add: init_def chmod_a_def)
  have q2: "pumppc (init [Watch_error (Error ''queue overflow''), write_a] False) = PSelect
      \<and> queue (init [Watch_error (Error ''queue overflow''), write_a] False)
          = Watch_error (Error ''queue overflow'') # [write_a]"
    by (simp add: init_def)
  from closed pump_rebuild_iff_write [where items = ?items and s = "init [] False" and rest = "[]"
      and ev = "\<lparr>Name = ''a.md'', Op = Write\<rparr>" and err = "Error []"]
  have "length (filter is_send (pump ?items)) = length (filter is_write ?items)"
    by blast
  moreover have "pump ?items
      = [Send_rebuild True, Log_Println ''error: queue overflow'', Send_rebuild True]"
    by (simp add: write_a_def chmod_a_def Has_write_a Has_chmod_a)
  moreover from q1 pump_rebuild_iff_write [where s = "init [chmod_a, write_a] False"
      and ev = "\<lparr>Name = ''a.md'', Op = Chmod\<rparr>" and rest = "[write_a]" and items = "[]"
      and err = "Error []"]
  have "exec Pump (init [chmod_a, write_a] False) = Some (init [write_a] False)"
    by (simp add: Has_chmod_a init_def)
  moreover from q2 pump_rebuild_iff_write
      [where s = "init [Watch_error (Error ''queue overflow''), write_a] False"
      and err = "Error ''queue overflow''" and rest = "[write_a]" and items = "[]"
      and ev = "\<lparr>Name = ''a.md'', Op = Write\<rparr>"]
  have "exec Pump (init [Watch_error (Error ''queue overflow''), write_a] False)
       = Some ((init [write_a] False)\<lparr>logs := [''error: queue overflow'']\<rparr>)"
    by (simp add: init_def)
  ultimately show ?thesis by simp
qed

section \<open>The browser launch\<close>

text \<open>
  C8 (amended). A failure of the browser launch (unsupported platform, executable not
  found, failed command) is returned by \<open>preview\<close> and dropped by \<open>run\<close>: what \<open>run\<close>
  starts and prints in watch mode is the same for every operating system environment,
  the one line on standard output included, and nothing is printed about the failure;
  \<open>run\<close> then enters its loop and receives rebuild events as after a successful launch.
\<close>

theorem preview_result_is_dropped:
  "run L E fs inFilename [] tFname = run L E' fs inFilename [] tFname
   \<and> (ReadFile fs inFilename = Inr input \<and> parseContent L fs input inFilename tFname = Inr page
        \<longrightarrow> run L E fs inFilename [] tFname
            = (fs, [Go_fileWatcher inFilename, Go_serveContent inFilename tFname,
                    Println ''Server listening on http://localhost:5052/content''], Loop))
   \<and> exec Preview_returns (init evs taken) = Some ((init evs taken)\<lparr>mainpc := MRecv\<rparr>)
   \<and> map_option received (execs [Preview_returns, Pump, Rebuild_sync] (init (write_a # evs) taken))
       = Some 1"
proof (intro conjI impI)
  show "run L E fs inFilename [] tFname = run L E' fs inFilename [] tFname"
    by (simp add: run_def split: sum.splits)
  show "run L E fs inFilename [] tFname
            = (fs, [Go_fileWatcher inFilename, Go_serveContent inFilename tFname,
                    Println ''Server listening on http://localhost:5052/content''], Loop)"
    if "ReadFile fs inFilename = Inr input \<and> parseContent L fs input inFilename tFname = Inr page"
    using that by (simp add: run_def port_def)
  show "exec Preview_returns (init evs taken) = Some ((init evs taken)\<lparr>mainpc := MRecv\<rparr>)"
    by (simp add: init_def)
  show "map_option received (execs [Preview_returns, Pump, Rebuild_sync] (init (write_a # evs) taken))
       = Some 1"
    by (simp add: init_def write_a_def Has_write_a)
qed

theorem preview_result_is_dropped_witness:
  "run stub plan9 disk ''a.md'' [] []
     = (disk, [Go_fileWatcher ''a.md'', Go_serveContent ''a.md'' [],
               Println ''Server listening on http://localhost:5052/content''], Loop)
   \<and> run stub linux disk ''a.md'' [] [] = run stub plan9 disk ''a.md'' [] []"
proof -
  have ok: "ReadFile disk ''a.md'' = Inr ''# hi''
      \<and> parseContent stub disk ''# hi'' ''a.md'' [] = Inr ''a.md: # hi''"
    by (simp add: ReadFile_disk parseContent_stub)
  note inst = preview_result_is_dropped [where L = stub and E = plan9 and E' = linux and fs = disk
      and inFilename = "''a.md''" and tFname = "[]" and input = "''# hi''"
      and page = "''a.md: # hi''" and evs = "[]" and taken = False]
  from inst ok have a: "run stub plan9 disk ''a.md'' [] []
     = (disk, [Go_fileWatcher ''a.md'', Go_serveContent ''a.md'' [],
               Println ''Server listening on http://localhost:5052/content''], Loop)"
    by blast
  from inst have b: "run stub plan9 disk ''a.md'' [] [] = run stub linux disk ''a.md'' [] []"
    by blast
  from a b show ?thesis by simp
qed

text \<open>
  The claim as stated has the failure reported to the user: on a platform that is not
  supported \<open>preview\<close> returns its error, and the whole output of the process is the
  line that announces the server.
\<close>

theorem preview_failure_not_reported:
  "preview plan9 ''http://localhost:5052/content'' = Some (Error ''OS not supported'')
   \<and> main stub plan9 disk \<lparr>arg_infile = Some ''a.md'', arg_outfile = None, arg_t = None\<rparr>
       = (disk, [Go_fileWatcher ''a.md'', Go_serveContent ''a.md'' [],
                 Println ''Server listening on http://localhost:5052/content''])"
  by (simp add: preview_def plan9_def linux_def main_def run_def Cut_before_def ReadFile_disk
      parseContent_stub port_def Let_def)

section \<open>Steps and invariants\<close>

lemma sum_list_map_update:
  "i < length xs \<Longrightarrow>
   sum_list (map f (xs[i := y])) + f (xs ! i) = sum_list (map f xs) + (f y :: nat)"
proof (induction xs arbitrary: i)
  case Nil
  then show ?case by simp
next
  case (Cons x xs)
  then show ?case by (cases i) auto
qed

lemma tokens_update:
  "i < length hs \<Longrightarrow>
   tokens (hs[i := h]) + (if fst (hs ! i) = HWait then 0 else 1)
     = tokens hs + (if fst h = HWait then 0 else 1)"
  unfolding tokens_def by (rule sum_list_map_update)

lemma list_all_update:
  "list_all P xs \<Longrightarrow> P y \<Longrightarrow> list_all P (xs[i := y])"
  using set_update_subset_insert [of xs i y] by (auto simp add: list_all_iff)

lemma exec_cases [consumes 1, case_names Preview Pump_rebuild Pump_ignored Pump_logged
    Pump_stop Sync Main_binds Main_fails First_binds First_fails Upgrade_fails Connected
    Token_main Token_first Written Closed]:
  assumes "exec l s = Some s'"
  obtains
    "l = Preview_returns" "mainpc s = MPreview" "s' = s\<lparr>mainpc := MRecv\<rparr>"
  | x rest where "l = Pump" "pumppc s = PSelect" "queue s = x # rest" "react x = Rebuild"
      "s' = s\<lparr>pumppc := PSend, queue := rest\<rparr>"
  | x rest where "l = Pump" "pumppc s = PSelect" "queue s = x # rest" "react x = Ignored"
      "s' = s\<lparr>queue := rest\<rparr>"
  | x rest m where "l = Pump" "pumppc s = PSelect" "queue s = x # rest" "react x = Logged m"
      "s' = s\<lparr>queue := rest, logs := logs s @ [m]\<rparr>"
  | x rest where "l = Pump" "pumppc s = PSelect" "queue s = x # rest" "react x = Stop"
      "s' = s\<lparr>pumppc := PReturned, queue := rest\<rparr>"
  | "l = Rebuild_sync" "pumppc s = PSend" "mainpc s = MRecv"
      "s' = s\<lparr>pumppc := PSelect, mainpc := MServeContent SListen, received := received s + 1\<rparr>"
  | "l = Listen_main" "mainpc s = MServeContent SListen" "bound s = None"
      "s' = s\<lparr>mainpc := MServeContent SServe, bound := Some ByMain\<rparr>"
  | h where "l = Listen_main" "mainpc s = MServeContent SListen" "bound s = Some h"
      "s' = s\<lparr>mainpc := MServeContent SSend, bound := Some h\<rparr>"
  | "l = Listen_first" "firstpc s = SListen" "bound s = None"
      "s' = s\<lparr>firstpc := SServe, bound := Some ByFirst\<rparr>"
  | h where "l = Listen_first" "firstpc s = SListen" "bound s = Some h"
      "s' = s\<lparr>firstpc := SSend, bound := Some h\<rparr>"
  | err where "l = Connect (Some err)" "bound s = Some ByFirst \<or> bound s = Some ByMain"
      "s' = s\<lparr>logs := logs s @ [''upgrade:'' @ message err]\<rparr>"
  | "l = Connect None" "bound s = Some ByFirst \<or> bound s = Some ByMain"
      "s' = s\<lparr>handlers := handlers s @ [(HWait, [])]\<rparr>"
  | i calls where "l = Up_main i" "mainpc s = MServeContent SSend" "i < length (handlers s)"
      "handlers s ! i = (HWait, calls)"
      "s' = s\<lparr>mainpc := MRecv, handlers := (handlers s)[i := (HGot True, calls)]\<rparr>"
  | i calls where "l = Up_first i" "firstpc s = SSend" "i < length (handlers s)"
      "handlers s ! i = (HWait, calls)"
      "s' = s\<lparr>firstpc := SDone, handlers := (handlers s)[i := (HGot True, calls)]\<rparr>"
  | i up calls where "l = Write_json i" "i < length (handlers s)"
      "handlers s ! i = (HGot up, calls)"
      "s' = s\<lparr>handlers := (handlers s)
              [i := (HDefer, if up then calls @ [WriteJSON build_complete] else calls)]\<rparr>"
  | i calls where "l = Close_conn i" "i < length (handlers s)"
      "handlers s ! i = (HDefer, calls)"
      "s' = s\<lparr>handlers := (handlers s)[i := (HDone, calls @ [Close])]\<rparr>"
proof (cases l)
  case Preview_returns
  with assms that(1) show ?thesis by (simp split: if_splits)
next
  case Pump
  with assms obtain x rest where q: "pumppc s = PSelect" "queue s = x # rest"
    by (auto split: if_splits list.splits)
  with assms Pump that(2-5) [of x rest] show ?thesis
    by (cases "react x") auto
next
  case Rebuild_sync
  with assms that(6) show ?thesis by (simp split: if_splits)
next
  case Listen_main
  with assms that(7,8) show ?thesis by (cases "bound s") (auto split: if_splits)
next
  case Listen_first
  with assms that(9,10) show ?thesis by (cases "bound s") (auto split: if_splits)
next
  case (Connect upg)
  with assms that(11,12) show ?thesis by (cases upg) (auto split: if_splits)
next
  case (Up_main i)
  with assms that(13) [of i "snd (handlers s ! i)"] show ?thesis
    by (cases "handlers s ! i") (auto split: if_splits)
next
  case (Up_first i)
  with assms that(14) [of i "snd (handlers s ! i)"] show ?thesis
    by (cases "handlers s ! i") (auto split: if_splits)
next
  case (Write_json i)
  with assms that(15) [of i] show ?thesis
    by (cases "handlers s ! i") (auto split: if_splits ws_pc.splits)
next
  case (Close_conn i)
  with assms that(16) [of i] show ?thesis
    by (cases "handlers s ! i") (auto split: if_splits ws_pc.splits)
qed


lemma writes_Cons: "writes (x # rest) = (if react x = Rebuild then 1 else 0) + writes rest"
  by (cases x) (simp_all add: writes_def)

lemma counted_step: "counted n s \<Longrightarrow> exec l s = Some s' \<Longrightarrow> counted n s'"
  by (erule exec_cases) (simp_all add: counted_def writes_Cons)

lemma ports_step: "ports_ok s \<Longrightarrow> exec l s = Some s' \<Longrightarrow> ports_ok s'"
proof (erule exec_cases)
  fix h
  assume "ports_ok s" "firstpc s = SListen" "bound s = Some h"
    "s' = s\<lparr>firstpc := SSend, bound := Some h\<rparr>"
  then show "ports_ok s'" by (cases h) (auto simp add: ports_ok_def)
qed (auto simp add: ports_ok_def)

lemma tokens_snoc: "tokens (hs @ [(HWait, calls)]) = tokens hs"
  by (simp add: tokens_def)

lemma tokens_step: "tokens_ok s \<Longrightarrow> exec l s = Some s' \<Longrightarrow> tokens_ok s'"
proof (erule exec_cases)
  fix i calls
  assume "tokens_ok s" "mainpc s = MServeContent SSend" "i < length (handlers s)"
    "handlers s ! i = (HWait, calls)"
    "s' = s\<lparr>mainpc := MRecv, handlers := (handlers s)[i := (HGot True, calls)]\<rparr>"
  then show "tokens_ok s'"
    using tokens_update [of i "handlers s" "(HGot True, calls)"] by (simp add: tokens_ok_def)
next
  fix i calls
  assume "tokens_ok s" "firstpc s = SSend" "i < length (handlers s)"
    "handlers s ! i = (HWait, calls)"
    "s' = s\<lparr>firstpc := SDone, handlers := (handlers s)[i := (HGot True, calls)]\<rparr>"
  then show "tokens_ok s'"
    using tokens_update [of i "handlers s" "(HGot True, calls)"] by (simp add: tokens_ok_def)
next
  fix i up calls
  assume "tokens_ok s" "i < length (handlers s)" "handlers s ! i = (HGot up, calls)"
    "s' = s\<lparr>handlers := (handlers s)
              [i := (HDefer, if up then calls @ [WriteJSON build_complete] else calls)]\<rparr>"
  then show "tokens_ok s'"
    using tokens_update [of i "handlers s"
        "(HDefer, if up then calls @ [WriteJSON build_complete] else calls)"]
    by (simp add: tokens_ok_def)
next
  fix i calls
  assume "tokens_ok s" "i < length (handlers s)" "handlers s ! i = (HDefer, calls)"
    "s' = s\<lparr>handlers := (handlers s)[i := (HDone, calls @ [Close])]\<rparr>"
  then show "tokens_ok s'"
    using tokens_update [of i "handlers s" "(HDone, calls @ [Close])"]
    by (simp add: tokens_ok_def)
qed (simp_all add: tokens_ok_def tokens_snoc)

lemma handler_ok_nth:
  "list_all handler_ok hs \<Longrightarrow> i < length hs \<Longrightarrow> handler_ok (hs ! i)"
  by (simp add: list_all_length)

lemma handlers_step: "handlers_ok s \<Longrightarrow> exec l s = Some s' \<Longrightarrow> handlers_ok s'"
proof (erule exec_cases)
  fix i up calls
  assume "handlers_ok s" "i < length (handlers s)" "handlers s ! i = (HGot up, calls)"
    "s' = s\<lparr>handlers := (handlers s)
              [i := (HDefer, if up then calls @ [WriteJSON build_complete] else calls)]\<rparr>"
  then show "handlers_ok s'"
    using handler_ok_nth [of "handlers s" i]
    by (simp add: handlers_ok_def list_all_update)
next
  fix i calls
  assume "handlers_ok s" "i < length (handlers s)" "handlers s ! i = (HDefer, calls)"
    "s' = s\<lparr>handlers := (handlers s)[i := (HDone, calls @ [Close])]\<rparr>"
  then show "handlers_ok s'"
    using handler_ok_nth [of "handlers s" i]
    by (simp add: handlers_ok_def list_all_update)
next
  fix i calls
  assume "handlers_ok s" "i < length (handlers s)" "handlers s ! i = (HWait, calls)"
    "s' = s\<lparr>mainpc := MRecv, handlers := (handlers s)[i := (HGot True, calls)]\<rparr>"
  then show "handlers_ok s'"
    using handler_ok_nth [of "handlers s" i]
    by (simp add: handlers_ok_def list_all_update)
next
  fix i calls
  assume "handlers_ok s" "i < length (handlers s)" "handlers s ! i = (HWait, calls)"
    "s' = s\<lparr>firstpc := SDone, handlers := (handlers s)[i := (HGot True, calls)]\<rparr>"
  then show "handlers_ok s'"
    using handler_ok_nth [of "handlers s" i]
    by (simp add: handlers_ok_def list_all_update)
qed (simp_all add: handlers_ok_def)

lemma invariant_step: "invariant n s \<Longrightarrow> exec l s = Some s' \<Longrightarrow> invariant n s'"
  unfolding invariant_def using counted_step ports_step tokens_step handlers_step by blast

lemma invariant_execs: "invariant n s \<Longrightarrow> execs ls s = Some s' \<Longrightarrow> invariant n s'"
proof (induction ls arbitrary: s)
  case Nil
  then show ?case by simp
next
  case (Cons l ls)
  then show ?case by (auto split: option.splits dest: invariant_step)
qed

lemma invariant_init: "invariant (writes evs) (init evs taken)"
  by (simp add: invariant_def counted_def ports_ok_def tokens_ok_def handlers_ok_def init_def
      tokens_def)

lemma sent_le_tokens: "list_all handler_ok hs \<Longrightarrow> sent hs \<le> tokens hs"
proof (induction hs)
  case Nil
  then show ?case by (simp add: sent_def tokens_def)
next
  case (Cons h hs)
  obtain pc calls where h: "h = (pc, calls)" by (cases h)
  with Cons show ?case
    by (cases pc) (auto simp add: sent_def tokens_def messages_def)
qed

lemma invariant_sent_le_received:
  assumes "invariant n s"
  shows "sent (handlers s) \<le> received s"
proof -
  from assms have le: "sent (handlers s) \<le> tokens (handlers s)"
    by (simp add: invariant_def handlers_ok_def sent_le_tokens)
  show ?thesis
  proof (cases "firstpc s = SDone")
    case False
    with assms le show ?thesis by (simp add: invariant_def tokens_ok_def)
  next
    case True
    with assms have "bound s = Some ByMain \<or> bound s = Some ByOther"
      by (simp add: invariant_def ports_ok_def)
    then show ?thesis
    proof
      assume "bound s = Some ByMain"
      with assms have "in_cycle (mainpc s) = 1" by (simp add: invariant_def ports_ok_def)
      with assms True le show ?thesis by (simp add: invariant_def tokens_ok_def)
    next
      assume "bound s = Some ByOther"
      with assms have "handlers s = []" by (simp add: invariant_def ports_ok_def)
      then show ?thesis by (simp add: sent_def)
    qed
  qed
qed

lemma blocked_step:
  "blocked s \<Longrightarrow> exec l s = Some s' \<Longrightarrow> l \<noteq> Connect None \<Longrightarrow>
   blocked s' \<and> received s' = received s"
proof (erule exec_cases)
  fix i calls
  assume "blocked s" "i < length (handlers s)" "handlers s ! i = (HWait, calls)"
    "mainpc s = MServeContent SSend"
  then show "blocked s' \<and> received s' = received s"
    by (auto simp add: blocked_def list_all_length)
next
  fix i calls
  assume "blocked s" "i < length (handlers s)" "handlers s ! i = (HWait, calls)"
    "firstpc s = SSend"
  then show "blocked s' \<and> received s' = received s"
    by (auto simp add: blocked_def list_all_length)
qed (simp_all add: blocked_def list_all_update)

lemma blocked_execs:
  "blocked s \<Longrightarrow> execs ls s = Some s' \<Longrightarrow> Connect None \<notin> set ls \<Longrightarrow>
   blocked s' \<and> received s' = received s"
proof (induction ls arbitrary: s)
  case Nil
  then show ?case by simp
next
  case (Cons l ls)
  from Cons.prems obtain s1 where s1: "exec l s = Some s1" "execs ls s1 = Some s'"
    by (auto split: option.splits)
  with Cons.prems blocked_step [of s l s1] have "blocked s1 \<and> received s1 = received s"
    by auto
  with Cons.IH [of s1] s1 Cons.prems show ?case by auto
qed

lemma blocked_no_token: "blocked s \<Longrightarrow> exec (Up_main i) s = None"
  by (auto simp add: blocked_def list_all_length)

lemma stuck_reached:
  "execs [Listen_first, Preview_returns, Pump, Rebuild_sync, Listen_main]
     (init [write_a, write_a] False) = Some stuck"
  by (simp add: init_def stuck_def write_a_def Has_write_a)

lemma two_saves_run: "execs two_saves (init [write_a, write_a] False) = Some reloaded_twice"
  by (simp add: two_saves_def init_def reloaded_twice_def write_a_def Has_write_a)

lemma sent_reloaded_twice: "sent (handlers reloaded_twice) = 2"
  by (simp add: reloaded_twice_def sent_def messages_def)

lemma handler_ok_calls:
  "handler_ok h \<Longrightarrow>
   (snd h = [] \<or> snd h = [WriteJSON build_complete]
      \<or> snd h = [WriteJSON build_complete, Close])
   \<and> (fst h = HDone \<longrightarrow> snd h = [WriteJSON build_complete, Close])
   \<and> messages (snd h) \<le> 1 \<and> close_frame (snd h) = None"
proof -
  assume a: "handler_ok h"
  obtain pc calls where h: "h = (pc, calls)" by (cases h)
  with a show ?thesis by (cases pc) (auto simp add: messages_def)
qed

lemma one_save_run:
  "execs one_save (init [write_a] False)
     = Some \<lparr>mainpc = MRecv, firstpc = SServe, pumppc = PSelect, queue = [],
             bound = Some ByFirst, handlers = [(HDone, [WriteJSON build_complete, Close])],
             logs = [], received = 1\<rparr>"
  by (simp add: one_save_def init_def write_a_def Has_write_a)











text \<open>
  Nothing in the program orders the listen of \<^verbatim>\<open>go serveContent\<close> before the first
  call of the loop: in a schedule where the loop's call comes first it is that call
  that binds the port and serves, and the goroutine whose listen fails.
\<close>

lemma run_may_bind_first:
  "map_option (\<lambda>s. (mainpc s, firstpc s, bound s))
     (execs [Preview_returns, Pump, Rebuild_sync, Listen_main, Listen_first]
        (init [write_a] False))
     = Some (MServeContent SServe, SSend, Some ByMain)"
  by (simp add: init_def write_a_def Has_write_a)



section \<open>The loop of the orchestrator\<close>

text \<open>
  C9. When \<^verbatim>\<open>run\<close> is at its send on \<^verbatim>\<open>serverUp\<close> and no handler of a browser
  connection is at its receive, then as long as no browser connects, whatever the
  other goroutines do, \<^verbatim>\<open>run\<close> stays at the send: the number of rebuild events it has
  received does not change, the watcher's send on \<^verbatim>\<open>rebuild\<close> finds no receiver and no
  handler can take the value. Once a browser has connected (the first listener holding
  the port), its handler takes the value and \<^verbatim>\<open>run\<close> is back at its receive.
\<close>

theorem orchestrator_blocks_without_client:
  assumes "mainpc s = MServeContent SSend"
    and "list_all (\<lambda>h. fst h \<noteq> HWait) (handlers s)"
    and "Connect None \<notin> set ls"
    and "execs ls s = Some s'"
  shows "mainpc s' = MServeContent SSend \<and> received s' = received s
         \<and> exec Rebuild_sync s' = None \<and> exec (Up_main i) s' = None
         \<and> (bound s' = Some ByFirst \<longrightarrow>
              map_option mainpc (execs [Connect None, Up_main (length (handlers s'))] s')
                = Some MRecv)"
proof -
  from assms have b: "blocked s' \<and> received s' = received s"
    using blocked_execs [of s ls s'] by (simp add: blocked_def)
  then have "exec (Up_main i) s' = None" using blocked_no_token [of s' i] by blast
  moreover from b have "mainpc s' = MServeContent SSend" by (simp add: blocked_def)
  moreover from this have "exec Rebuild_sync s' = None" by simp
  moreover have "map_option mainpc (execs [Connect None, Up_main (length (handlers s'))] s')
                = Some MRecv" if "bound s' = Some ByFirst"
    using that \<open>mainpc s' = MServeContent SSend\<close> by (simp add: nth_append)
  ultimately show ?thesis using b by blast
qed

theorem orchestrator_blocks_without_client_witness:
  "execs [Listen_first, Preview_returns, Pump, Rebuild_sync, Listen_main]
     (init [write_a, write_a] False) = Some stuck
   \<and> execs [Pump] stuck = Some (stuck\<lparr>pumppc := PSend, queue := []\<rparr>)
   \<and> received (stuck\<lparr>pumppc := PSend, queue := []\<rparr>) = 1
   \<and> exec Rebuild_sync (stuck\<lparr>pumppc := PSend, queue := []\<rparr>) = None
   \<and> exec (Up_main 0) (stuck\<lparr>pumppc := PSend, queue := []\<rparr>) = None
   \<and> map_option mainpc (execs [Connect None, Up_main 0] (stuck\<lparr>pumppc := PSend, queue := []\<rparr>))
       = Some MRecv"
proof -
  have e: "execs [Pump] stuck = Some (stuck\<lparr>pumppc := PSend, queue := []\<rparr>)"
    by (simp add: stuck_def write_a_def Has_write_a)
  have h: "mainpc stuck = MServeContent SSend"
    "list_all (\<lambda>h. fst h \<noteq> HWait) (handlers stuck)"
    "Connect None \<notin> set [Pump]"
    by (simp_all add: stuck_def)
  from orchestrator_blocks_without_client [OF h e, of 0] stuck_reached e
  show ?thesis by (simp add: stuck_def)
qed




text \<open>
  C4 (amended). The channel \<^verbatim>\<open>rebuild\<close> has no capacity and the watcher's send waits
  for its receiver: in every state of every execution each write event is still to be
  delivered, is waiting in the watcher's send, or has been received by \<^verbatim>\<open>run\<close>; none
  is merged with another or dropped. The build-complete messages written are at
  most the rebuild events received, and these at most the write events.
\<close>

theorem rebuilds_are_counted:
  assumes "execs ls (init evs taken) = Some s"
  shows "received s + (if pumppc s = PSend then 1 else 0) + writes (queue s) = writes evs
         \<and> sent (handlers s) \<le> received s
         \<and> received s \<le> writes evs"
proof -
  from assms have i: "invariant (writes evs) s"
    using invariant_execs [OF invariant_init] by blast
  then have c: "received s + (if pumppc s = PSend then 1 else 0) + writes (queue s) = writes evs"
    by (simp add: invariant_def counted_def)
  moreover from i have "sent (handlers s) \<le> received s" by (rule invariant_sent_le_received)
  moreover from c have "received s \<le> writes evs" by simp
  ultimately show ?thesis by blast
qed

theorem rebuilds_are_counted_witness:
  "execs two_saves (init [write_a, write_a] False) = Some reloaded_twice
   \<and> received reloaded_twice + writes (queue reloaded_twice) = writes [write_a, write_a]
   \<and> sent (handlers reloaded_twice) \<le> received reloaded_twice
   \<and> received reloaded_twice \<le> writes [write_a, write_a]"
  using rebuilds_are_counted [OF two_saves_run] two_saves_run
  by (simp add: reloaded_twice_def)

text \<open>
  The claim as stated has fast saves coalesced into one reload: here the second write
  is at the watcher's send while \<^verbatim>\<open>run\<close> is busy with the first, and the two writes
  end in two rebuild events and two build-complete messages.
\<close>

theorem two_fast_saves_two_reloads:
  "map_option (\<lambda>s. (received s, sent (handlers s), queue s))
     (execs two_saves (init [write_a, write_a] False)) = Some (2, 2, [])
   \<and> map_option pumppc
     (execs [Listen_first, Preview_returns, Connect None, Pump, Rebuild_sync, Pump]
        (init [write_a, write_a] False)) = Some PSend"
proof -
  have "map_option pumppc
     (execs [Listen_first, Preview_returns, Connect None, Pump, Rebuild_sync, Pump]
        (init [write_a, write_a] False)) = Some PSend"
    by (simp add: init_def write_a_def Has_write_a)
  then show ?thesis
    by (simp add: two_saves_run sent_reloaded_twice) (simp add: reloaded_twice_def)
qed

section \<open>The WebSocket endpoint\<close>

text \<open>
  C3 (amended). On every connection the handler makes at most the calls
  \<^verbatim>\<open>WriteJSON\<close> of the build-complete event and then \<^verbatim>\<open>Close\<close>: when it has returned it
  has sent exactly the one message \<^verbatim>\<open>{"type":"build_complete"}\<close>, no second message,
  and has closed the network connection; it sends no close frame, so no close status
  and no reason.
\<close>

theorem ws_sends_one_message_then_closes:
  assumes "execs ls (init evs taken) = Some s" and "h \<in> set (handlers s)"
  shows \<open>(snd h = [] \<or> snd h = [WriteJSON build_complete]
            \<or> snd h = [WriteJSON build_complete, Close])
         \<and> (fst h = HDone \<longrightarrow> snd h = [WriteJSON build_complete, Close])
         \<and> messages (snd h) \<le> 1
         \<and> close_frame (snd h) = None
         \<and> json build_complete = ''{"type":"build_complete"}'' @ [CHR 0x0A]\<close>
proof -
  from assms(1) have "invariant (writes evs) s"
    using invariant_execs [OF invariant_init] by blast
  with assms(2) have "handler_ok h"
    by (simp add: invariant_def handlers_ok_def list_all_iff)
  then show ?thesis
    using handler_ok_calls [of h] by (simp add: json_def build_complete_def)
qed

theorem ws_sends_one_message_then_closes_witness:
  "map_option handlers (execs one_save (init [write_a] False))
     = Some [(HDone, [WriteJSON build_complete, Close])]
   \<and> messages [WriteJSON build_complete, Close] \<le> 1
   \<and> close_frame [WriteJSON build_complete, Close] = None"
  using ws_sends_one_message_then_closes
    [OF one_save_run, of "(HDone, [WriteJSON build_complete, Close])"]
  by (simp add: one_save_run)

text \<open>
  The claim as stated has the server close with status 1000 and a reason: after the
  message the only call on the connection is \<^verbatim>\<open>Close\<close>, which sends no close frame.
\<close>

theorem ws_close_sends_no_status:
  "map_option handlers (execs one_save (init [write_a] False))
     = Some [(HDone, [WriteJSON build_complete, Close])]
   \<and> close_frame [WriteJSON build_complete, Close] \<noteq> Some (1000, ''build complete'')
   \<and> close_frame [WriteJSON build_complete, Close] = None"
  by (simp add: one_save_run)

end
